theory Spec2Isabelle
  imports Complex_Main "HOL-Library.Word"
begin

section \<open>JavaScript values\<close>

text \<open>
  The webhook helpers receive values produced by a JSON parser or by the HTTP framework's
  query-string parser, and one of them is typed \<^verbatim>\<open>any\<close>. The TypeScript annotations
  are erased at run time, so the helpers are modelled over untyped JavaScript values:
  \<^verbatim>\<open>undefined\<close>, \<^verbatim>\<open>null\<close>, booleans, numbers, strings, arrays and plain objects.
  An object is the list of its own properties, looked up by key. A number is the value
  it denotes; the code never computes with one, it only tests it for truthiness.
\<close>

datatype jsval =
    JUndefined
  | JNull
  | JBool bool
  | JNum rat
  | JStr string
  | JArr "jsval list"
  | JObj "(string \<times> jsval) list"

text \<open>The one exception the helpers can meet: reading a property of
  \<^verbatim>\<open>undefined\<close> or \<^verbatim>\<open>null\<close>, and the range error of the comparison primitive.\<close>

datatype js_error = TypeError | RangeError

definition bind_err :: "js_error + 'a \<Rightarrow> ('a \<Rightarrow> js_error + 'b) \<Rightarrow> js_error + 'b" where
  "bind_err m f = (case m of Inl e \<Rightarrow> Inl e | Inr v \<Rightarrow> f v)"

text \<open>ToBoolean: the test applied by \<^verbatim>\<open>if\<close>, \<^verbatim>\<open>&&\<close> and \<^verbatim>\<open>!\<close>.\<close>

fun truthy :: "jsval \<Rightarrow> bool" where
  "truthy JUndefined = False"
| "truthy JNull = False"
| "truthy (JBool b) = b"
| "truthy (JNum x) = (x \<noteq> 0)"
| "truthy (JStr s) = (s \<noteq> [])"
| "truthy (JArr xs) = True"
| "truthy (JObj kvs) = True"

text \<open>
  \<^verbatim>\<open>v.key\<close> and \<^verbatim>\<open>v['key']\<close> for the keys the helpers read (\<^verbatim>\<open>entry\<close>,
  \<^verbatim>\<open>changes\<close>, \<^verbatim>\<open>value\<close>, \<^verbatim>\<open>messages\<close>, \<^verbatim>\<open>statuses\<close> and the three
  \<^verbatim>\<open>hub.*\<close> keys): none of them is inherited from a built-in prototype, so the
  lookup finds an own property of an object or nothing. Reading a property of
  \<^verbatim>\<open>undefined\<close> or \<^verbatim>\<open>null\<close> throws a TypeError; on every other value a missing
  property reads as \<^verbatim>\<open>undefined\<close>.
\<close>

fun get_prop :: "jsval \<Rightarrow> string \<Rightarrow> js_error + jsval" where
  "get_prop JUndefined k = Inl TypeError"
| "get_prop JNull k = Inl TypeError"
| "get_prop (JObj kvs) k = Inr (case map_of kvs k of None \<Rightarrow> JUndefined | Some v \<Rightarrow> v)"
| "get_prop v k = Inr JUndefined"

text \<open>
  \<^verbatim>\<open>v[0]\<close>: the first element of an array, the first character of a string, the
  property named \<^verbatim>\<open>"0"\<close> of an object; \<^verbatim>\<open>undefined\<close> when there is none, and a
  TypeError on \<^verbatim>\<open>undefined\<close> and \<^verbatim>\<open>null\<close>.
\<close>

fun elem0 :: "jsval \<Rightarrow> js_error + jsval" where
  "elem0 JUndefined = Inl TypeError"
| "elem0 JNull = Inl TypeError"
| "elem0 (JArr xs) = Inr (case xs of [] \<Rightarrow> JUndefined | x # _ \<Rightarrow> x)"
| "elem0 (JStr s) = Inr (case s of [] \<Rightarrow> JUndefined | c # _ \<Rightarrow> JStr [c])"
| "elem0 (JObj kvs) = Inr (case map_of kvs ''0'' of None \<Rightarrow> JUndefined | Some v \<Rightarrow> v)"
| "elem0 v = Inr JUndefined"

section \<open>The subscription handshake\<close>

text \<open>
  \<^verbatim>\<open>
  static verifyWebhook(query: any, verifyToken: string): string | null {
    const mode = query['hub.mode'];
    const token = query['hub.verify_token'];
    const challenge = query['hub.challenge'];
    if (mode && token) {
      if (mode === 'subscribe' && token === verifyToken) {
        return challenge;
      }
    }
    return null;
  }
  \<close>
\<close>

definition verifyWebhook :: "jsval \<Rightarrow> string \<Rightarrow> js_error + jsval" where
  "verifyWebhook query verifyToken =
     bind_err (get_prop query ''hub.mode'') (\<lambda>mode.
     bind_err (get_prop query ''hub.verify_token'') (\<lambda>token.
     bind_err (get_prop query ''hub.challenge'') (\<lambda>challenge.
       if truthy mode \<and> truthy token then
         if mode = JStr ''subscribe'' \<and> token = JStr verifyToken then Inr challenge
         else Inr JNull
       else Inr JNull)))"

section \<open>First-event extraction\<close>

text \<open>
  \<^verbatim>\<open>
  static getFirstMessage(payload: WebhookPayload) {
    if (
      payload.entry &&
      payload.entry[0].changes &&
      payload.entry[0].changes[0].value.messages &&
      payload.entry[0].changes[0].value.messages[0]
    ) {
      return payload.entry[0].changes[0].value.messages[0];
    }
    return null;
  }
  \<close>
  Each conjunct of the condition walks the envelope again from the top; the four access
  paths are written out one by one. The last two are shared with \<^verbatim>\<open>getFirstStatus\<close>
  and take the key (\<^verbatim>\<open>messages\<close> or \<^verbatim>\<open>statuses\<close>) as an argument.
\<close>

definition payload_entry :: "jsval \<Rightarrow> js_error + jsval" where
  "payload_entry payload = get_prop payload ''entry''"

definition payload_entry0_changes :: "jsval \<Rightarrow> js_error + jsval" where
  "payload_entry0_changes payload =
     bind_err (payload_entry payload) (\<lambda>entry.
     bind_err (elem0 entry) (\<lambda>entry0. get_prop entry0 ''changes''))"

definition payload_entry0_changes0_value :: "jsval \<Rightarrow> string \<Rightarrow> js_error + jsval" where
  "payload_entry0_changes0_value payload key =
     bind_err (payload_entry0_changes payload) (\<lambda>changes.
     bind_err (elem0 changes) (\<lambda>changes0.
     bind_err (get_prop changes0 ''value'') (\<lambda>val. get_prop val key)))"

definition payload_entry0_changes0_value0 :: "jsval \<Rightarrow> string \<Rightarrow> js_error + jsval" where
  "payload_entry0_changes0_value0 payload key =
     bind_err (payload_entry0_changes0_value payload key) elem0"

definition getFirstMessage :: "jsval \<Rightarrow> js_error + jsval" where
  "getFirstMessage payload =
     bind_err (payload_entry payload) (\<lambda>c1.
       if \<not> truthy c1 then Inr JNull else
     bind_err (payload_entry0_changes payload) (\<lambda>c2.
       if \<not> truthy c2 then Inr JNull else
     bind_err (payload_entry0_changes0_value payload ''messages'') (\<lambda>c3.
       if \<not> truthy c3 then Inr JNull else
     bind_err (payload_entry0_changes0_value0 payload ''messages'') (\<lambda>c4.
       if \<not> truthy c4 then Inr JNull else
     payload_entry0_changes0_value0 payload ''messages''))))"

text \<open>
  \<^verbatim>\<open>
  static getFirstStatus(payload: WebhookPayload) {
    if (
      payload.entry &&
      payload.entry[0].changes &&
      payload.entry[0].changes[0].value.statuses &&
      payload.entry[0].changes[0].value.statuses[0]
    ) {
      return payload.entry[0].changes[0].value.statuses[0];
    }
    return null;
  }
  \<close>
\<close>

definition getFirstStatus :: "jsval \<Rightarrow> js_error + jsval" where
  "getFirstStatus payload =
     bind_err (payload_entry payload) (\<lambda>c1.
       if \<not> truthy c1 then Inr JNull else
     bind_err (payload_entry0_changes payload) (\<lambda>c2.
       if \<not> truthy c2 then Inr JNull else
     bind_err (payload_entry0_changes0_value payload ''statuses'') (\<lambda>c3.
       if \<not> truthy c3 then Inr JNull else
     bind_err (payload_entry0_changes0_value0 payload ''statuses'') (\<lambda>c4.
       if \<not> truthy c4 then Inr JNull else
     payload_entry0_changes0_value0 payload ''statuses''))))"

section \<open>Signature validation\<close>

text \<open>
  Strings are character lists, one character per code unit (code units below 256).
  A buffer is a list of bytes. \<^verbatim>\<open>Buffer.from(s)\<close> is the UTF-8 encoding of the
  string: one byte for an ASCII character, two bytes for the others.
\<close>

type_synonym byte = "8 word"

definition utf8 :: "char \<Rightarrow> byte list" where
  "utf8 c = (let n = (of_char c :: nat) in
     if n < 128 then [of_nat n] else [of_nat (192 + n div 64), of_nat (128 + n mod 64)])"

definition Buffer_from :: "string \<Rightarrow> byte list" where
  "Buffer_from s = concat (map utf8 s)"

text \<open>The payload is typed \<^verbatim>\<open>string | Buffer\<close>; \<^verbatim>\<open>hmac.update\<close> hashes the
  bytes of a buffer and the UTF-8 encoding of a string.\<close>

datatype payload = PString string | PBuffer "byte list"

fun payload_bytes :: "payload \<Rightarrow> byte list" where
  "payload_bytes (PString s) = Buffer_from s"
| "payload_bytes (PBuffer b) = b"

text \<open>
  \<^verbatim>\<open>digest('hex')\<close> renders every byte as two digits, high nibble first, in lower
  case. The digit table is an argument so that the upper-case rendering can be written
  down as well.
\<close>

definition hex_with :: "string \<Rightarrow> byte list \<Rightarrow> string" where
  "hex_with digits bs =
     concat (map (\<lambda>b. [digits ! (unat b div 16), digits ! (unat b mod 16)]) bs)"

definition hex :: "byte list \<Rightarrow> string" where
  "hex bs = hex_with ''0123456789abcdef'' bs"

definition HEX :: "byte list \<Rightarrow> string" where
  "HEX bs = hex_with ''0123456789ABCDEF'' bs"

text \<open>\<^verbatim>\<open>s.split(sep)\<close> for a one-character separator: the pieces between the
  occurrences of the separator, empty pieces included; the empty string gives one empty
  piece.\<close>

fun split_str :: "char \<Rightarrow> string \<Rightarrow> string list" where
  "split_str sep [] = [[]]"
| "split_str sep (c # cs) =
     (if c = sep then [] # split_str sep cs
      else (case split_str sep cs of [] \<Rightarrow> [[c]] | p # ps \<Rightarrow> (c # p) # ps))"

text \<open>\<^verbatim>\<open>crypto.timingSafeEqual\<close> throws a RangeError on buffers of different
  lengths and otherwise tells whether they are equal.\<close>

definition timingSafeEqual :: "byte list \<Rightarrow> byte list \<Rightarrow> js_error + bool" where
  "timingSafeEqual a b = (if length a \<noteq> length b then Inl RangeError else Inr (a = b))"

text \<open>
  \<^verbatim>\<open>
  static validateSignature(payload: string | Buffer, signature: string, appSecret: string): boolean {
    if (!signature) return false;
    const parts = signature.split('=');
    if (parts.length !== 2) return false;
    const sigHash = parts[1];
    const hmac = crypto.createHmac('sha256', appSecret);
    hmac.update(payload);
    const digest = hmac.digest('hex');
    const digestRead = Buffer.from(digest);
    const sigRead = Buffer.from(sigHash);
    if (digestRead.length !== sigRead.length) return false;
    return crypto.timingSafeEqual(digestRead, sigRead);
  }
  \<close>
  HMAC-SHA256 belongs to the runtime's crypto module, not to this code: it is the
  argument \<open>hmac_sha256\<close>, a function from key bytes and message bytes to digest bytes.
  Everything proved below holds for every such function. The header is optional:
  \<open>None\<close> is a request without the header, where the argument is \<^verbatim>\<open>undefined\<close>.
\<close>

definition validateSignature ::
  "(byte list \<Rightarrow> byte list \<Rightarrow> byte list) \<Rightarrow> payload \<Rightarrow> string option \<Rightarrow> string
     \<Rightarrow> js_error + bool" where
  "validateSignature hmac_sha256 payload signature appSecret =
     (case signature of
        None \<Rightarrow> Inr False
      | Some sig \<Rightarrow>
          if sig = [] then Inr False else
          let parts = split_str CHR ''='' sig in
          if length parts \<noteq> 2 then Inr False else
          let sigHash = parts ! 1;
              digest = hex (hmac_sha256 (Buffer_from appSecret) (payload_bytes payload));
              digestRead = Buffer_from digest;
              sigRead = Buffer_from sigHash in
          if length digestRead \<noteq> length sigRead then Inr False
          else timingSafeEqual digestRead sigRead)"

text \<open>
  For concrete instances the keyed hash is instantiated with the HMAC-SHA256 test vector
  of RFC 4231 (test case 2: key \<^verbatim>\<open>Jefe\<close>, data \<^verbatim>\<open>what do ya want for nothing?\<close>),
  as a function that has this value at this key and message.
\<close>

definition rfc4231_hmac :: "byte list \<Rightarrow> byte list \<Rightarrow> byte list" where
  "rfc4231_hmac key msg =
     (if key = [0x4a, 0x65, 0x66, 0x65]
       \<and> msg = [0x77, 0x68, 0x61, 0x74, 0x20, 0x64, 0x6f, 0x20, 0x79, 0x61, 0x20, 0x77, 0x61, 0x6e,
                 0x74, 0x20, 0x66, 0x6f, 0x72, 0x20, 0x6e, 0x6f, 0x74, 0x68, 0x69, 0x6e, 0x67, 0x3f]
      then
     [0x5b, 0xdc, 0xc1, 0x46, 0xbf, 0x60, 0x75, 0x4e, 0x6a, 0x04, 0x24, 0x26, 0x08, 0x95, 0x75, 0xc7,
      0x5a, 0x00, 0x3f, 0x08, 0x9d, 0x27, 0x39, 0x83, 0x9d, 0xec, 0x58, 0xb9, 0x64, 0xec, 0x38, 0x43]
      else replicate 32 0)"

section \<open>Properties of the extraction\<close>

lemmas getFirst_defs =
  getFirstMessage_def getFirstStatus_def payload_entry_def
  payload_entry0_changes_def payload_entry0_changes0_value_def
  payload_entry0_changes0_value0_def bind_err_def

text \<open>
  C1. The claim is that \<^verbatim>\<open>getFirstMessage\<close> and \<^verbatim>\<open>getFirstStatus\<close> never raise and
  return \<^verbatim>\<open>null\<close> whenever a link of the chain is missing or empty. On a well-typed
  envelope with an empty \<^verbatim>\<open>entry\<close> array, \<^verbatim>\<open>payload.entry\<close> is truthy,
  \<^verbatim>\<open>payload.entry[0]\<close> is \<^verbatim>\<open>undefined\<close>, and reading \<^verbatim>\<open>.changes\<close> from it
  throws a TypeError; the same happens one level down for an entry whose \<^verbatim>\<open>changes\<close>
  array is empty. Only the third example of the claim (an empty \<^verbatim>\<open>value\<close> object)
  returns \<^verbatim>\<open>null\<close>.
\<close>

theorem getFirstMessage_empty_entry_raises:
  "getFirstMessage (JObj [(''object'', JStr ''whatsapp_business_account''), (''entry'', JArr [])])
     = Inl TypeError
   \<and> getFirstStatus (JObj [(''object'', JStr ''whatsapp_business_account''), (''entry'', JArr [])])
     = Inl TypeError
   \<and> getFirstMessage (JObj [(''entry'', JArr [JObj [(''changes'', JArr [])]])]) = Inl TypeError
   \<and> getFirstMessage (JObj [(''entry'', JArr [JObj [(''changes'', JArr [JObj [(''value'', JObj [])]])]])])
     = Inr JNull"
  by (simp add: getFirst_defs)

text \<open>
  C8. When the first entry's first change's value holds a non-empty \<^verbatim>\<open>messages\<close>
  array whose first element is a message record, \<^verbatim>\<open>getFirstMessage\<close> returns that
  record unchanged. The later messages \<open>ms\<close>, the later changes \<open>cs\<close> and the later
  entries \<open>es\<close> are arbitrary and do not appear in the result.
\<close>

theorem getFirstMessage_first_message:
  assumes "get_prop payload ''entry'' = Inr (JArr (e # es))"
    and "get_prop e ''changes'' = Inr (JArr (c # cs))"
    and "get_prop c ''value'' = Inr v"
    and "get_prop v ''messages'' = Inr (JArr (JObj m1 # ms))"
  shows "getFirstMessage payload = Inr (JObj m1)"
  using assms by (simp add: getFirst_defs)

text \<open>
  The envelope of the specification's example, with a second message, a second change
  and a second entry.
\<close>

theorem getFirstMessage_first_message_witness:
  "getFirstMessage
     (JObj [(''object'', JStr ''whatsapp_business_account''),
            (''entry'',
              JArr [JObj [(''id'', JStr ''1''),
                     (''changes'',
                       JArr [JObj [(''value'',
                                     JObj [(''messages'',
                                             JArr [JObj [(''id'', JStr ''m1''), (''type'', JStr ''text''),
                                                         (''text'', JObj [(''body'', JStr ''hi'')])],
                                                   JObj [(''id'', JStr ''m2'')]])]),
                                   (''field'', JStr ''messages'')],
                             JObj [(''value'', JObj []), (''field'', JStr ''other'')]])],
               JObj [(''id'', JStr ''2'')]])])
   = Inr (JObj [(''id'', JStr ''m1''), (''type'', JStr ''text''),
                (''text'', JObj [(''body'', JStr ''hi'')])])"
proof -
  let ?m1 = "[(''id'', JStr ''m1''), (''type'', JStr ''text''), (''text'', JObj [(''body'', JStr ''hi'')])]"
  let ?m2 = "JObj [(''id'', JStr ''m2'')]"
  let ?v = "JObj [(''messages'', JArr [JObj ?m1, ?m2])]"
  let ?c = "JObj [(''value'', ?v), (''field'', JStr ''messages'')]"
  let ?c' = "JObj [(''value'', JObj []), (''field'', JStr ''other'')]"
  let ?e = "JObj [(''id'', JStr ''1''), (''changes'', JArr [?c, ?c'])]"
  let ?e' = "JObj [(''id'', JStr ''2'')]"
  let ?p = "JObj [(''object'', JStr ''whatsapp_business_account''), (''entry'', JArr [?e, ?e'])]"
  have "getFirstMessage ?p = Inr (JObj ?m1)"
    by (rule getFirstMessage_first_message
              [where e = ?e and es = "[?e']" and c = ?c and cs = "[?c']" and v = ?v and ms = "[?m2]"])
       simp_all
  then show ?thesis .
qed

text \<open>
  C9. On an envelope whose first entry's first change's value is an object without a
  \<^verbatim>\<open>statuses\<close> property (whatever else it holds, a \<^verbatim>\<open>messages\<close> array included),
  \<^verbatim>\<open>getFirstStatus\<close> returns \<^verbatim>\<open>null\<close>; when that value holds a non-empty
  \<^verbatim>\<open>statuses\<close> array whose first element is a status record, it returns that
  record.
\<close>

theorem getFirstStatus_messages_only_or_first_status:
  assumes "get_prop payload ''entry'' = Inr (JArr (e # es))"
    and "get_prop e ''changes'' = Inr (JArr (c # cs))"
    and "get_prop c ''value'' = Inr (JObj kvs)"
  shows "(map_of kvs ''statuses'' = None \<longrightarrow> getFirstStatus payload = Inr JNull)
       \<and> (map_of kvs ''statuses'' = Some (JArr (JObj s1 # ss))
            \<longrightarrow> getFirstStatus payload = Inr (JObj s1))"
  using assms by (simp add: getFirst_defs)

text \<open>
  A messages-only envelope and a statuses-only envelope.
\<close>

theorem getFirstStatus_messages_only_or_first_status_witness:
  "getFirstStatus
     (JObj [(''entry'',
              JArr [JObj [(''changes'',
                            JArr [JObj [(''value'',
                                          JObj [(''messages'', JArr [JObj [(''id'', JStr ''m1'')]])])]])]])])
     = Inr JNull
   \<and> getFirstStatus
     (JObj [(''entry'',
              JArr [JObj [(''changes'',
                            JArr [JObj [(''value'',
                                          JObj [(''statuses'',
                                                  JArr [JObj [(''id'', JStr ''s1''),
                                                              (''status'', JStr ''delivered'')]])])]])]])])
     = Inr (JObj [(''id'', JStr ''s1''), (''status'', JStr ''delivered'')])"
proof
  have "map_of [(''messages'', JArr [JObj [(''id'', JStr ''m1'')]])] ''statuses'' = None"
    by simp
  with getFirstStatus_messages_only_or_first_status
    [where kvs = "[(''messages'', JArr [JObj [(''id'', JStr ''m1'')]])]"
       and payload = "JObj [(''entry'',
              JArr [JObj [(''changes'',
                            JArr [JObj [(''value'',
                                          JObj [(''messages'', JArr [JObj [(''id'', JStr ''m1'')]])])]])]])]"
       and es = "[]" and cs = "[]"]
  show "getFirstStatus
     (JObj [(''entry'',
              JArr [JObj [(''changes'',
                            JArr [JObj [(''value'',
                                          JObj [(''messages'', JArr [JObj [(''id'', JStr ''m1'')]])])]])]])])
     = Inr JNull"
    by simp
next
  have "map_of [(''statuses'', JArr [JObj [(''id'', JStr ''s1''), (''status'', JStr ''delivered'')]])]
          ''statuses''
        = Some (JArr (JObj [(''id'', JStr ''s1''), (''status'', JStr ''delivered'')] # []))"
    by simp
  with getFirstStatus_messages_only_or_first_status
    [where kvs = "[(''statuses'', JArr [JObj [(''id'', JStr ''s1''), (''status'', JStr ''delivered'')]])]"
       and payload = "JObj [(''entry'',
              JArr [JObj [(''changes'',
                            JArr [JObj [(''value'',
                                          JObj [(''statuses'',
                                                  JArr [JObj [(''id'', JStr ''s1''),
                                                              (''status'', JStr ''delivered'')]])])]])]])]"
       and es = "[]" and cs = "[]" and ss = "[]"
       and ?s1.0 = "[(''id'', JStr ''s1''), (''status'', JStr ''delivered'')]"]
  show "getFirstStatus
     (JObj [(''entry'',
              JArr [JObj [(''changes'',
                            JArr [JObj [(''value'',
                                          JObj [(''statuses'',
                                                  JArr [JObj [(''id'', JStr ''s1''),
                                                              (''status'', JStr ''delivered'')]])])]])]])])
     = Inr (JObj [(''id'', JStr ''s1''), (''status'', JStr ''delivered'')])"
    by simp
qed

section \<open>Properties of the handshake\<close>

text \<open>
  C4. The claim is that the challenge is returned exactly when the mode is
  \<^verbatim>\<open>"subscribe"\<close> and the supplied token equals the expected token, the empty expected
  token included. The guard \<^verbatim>\<open>if (mode && token)\<close> runs first and an empty token is
  falsy: with an empty expected token and an empty supplied token the tokens are equal
  and the result is \<^verbatim>\<open>null\<close>, not the challenge.
\<close>

theorem verifyWebhook_empty_token_counterexample:
  "verifyWebhook
     (JObj [(''hub.mode'', JStr ''subscribe''), (''hub.verify_token'', JStr ''''),
            (''hub.challenge'', JStr ''C123'')]) ''''
   = Inr JNull"
  by (simp add: verifyWebhook_def bind_err_def)

text \<open>
  C4, as the code has it. On every query object: the result is the value read from
  \<^verbatim>\<open>hub.challenge\<close>, unchanged (\<^verbatim>\<open>undefined\<close> when the query has none), exactly
  when the mode is the string \<^verbatim>\<open>"subscribe"\<close>, the supplied token is the string equal
  to the expected token, and that token is not empty; in every other case it is
  \<^verbatim>\<open>null\<close>. Nothing is raised.
\<close>

theorem verifyWebhook_challenge_iff:
  "verifyWebhook (JObj q) verifyToken =
     Inr (if map_of q ''hub.mode'' = Some (JStr ''subscribe'')
            \<and> map_of q ''hub.verify_token'' = Some (JStr verifyToken)
            \<and> verifyToken \<noteq> []
          then (case map_of q ''hub.challenge'' of None \<Rightarrow> JUndefined | Some ch \<Rightarrow> ch)
          else JNull)"
  by (auto simp: verifyWebhook_def bind_err_def split: option.splits)

text \<open>
  The handshake examples of the specification: matching token, wrong token, mode
  \<^verbatim>\<open>"unsubscribe"\<close>, mode missing.
\<close>

theorem verifyWebhook_challenge_iff_witness:
  "verifyWebhook
     (JObj [(''hub.mode'', JStr ''subscribe''), (''hub.verify_token'', JStr ''T''),
            (''hub.challenge'', JStr ''C123'')]) ''T''
   = Inr (JStr ''C123'')
   \<and> verifyWebhook
     (JObj [(''hub.mode'', JStr ''subscribe''), (''hub.verify_token'', JStr ''WRONG''),
            (''hub.challenge'', JStr ''C123'')]) ''T''
   = Inr JNull
   \<and> verifyWebhook
     (JObj [(''hub.mode'', JStr ''unsubscribe''), (''hub.verify_token'', JStr ''T''),
            (''hub.challenge'', JStr ''C123'')]) ''T''
   = Inr JNull
   \<and> verifyWebhook
     (JObj [(''hub.verify_token'', JStr ''T''), (''hub.challenge'', JStr ''C123'')]) ''T''
   = Inr JNull"
  using verifyWebhook_challenge_iff
      [of "[(''hub.mode'', JStr ''subscribe''), (''hub.verify_token'', JStr ''T''),
            (''hub.challenge'', JStr ''C123'')]" "''T''"]
    verifyWebhook_challenge_iff
      [of "[(''hub.mode'', JStr ''subscribe''), (''hub.verify_token'', JStr ''WRONG''),
            (''hub.challenge'', JStr ''C123'')]" "''T''"]
    verifyWebhook_challenge_iff
      [of "[(''hub.mode'', JStr ''unsubscribe''), (''hub.verify_token'', JStr ''T''),
            (''hub.challenge'', JStr ''C123'')]" "''T''"]
    verifyWebhook_challenge_iff
      [of "[(''hub.verify_token'', JStr ''T''), (''hub.challenge'', JStr ''C123'')]" "''T''"]
  by simp

section \<open>Properties of signature validation\<close>

subsection \<open>Splitting, encoding and hexadecimal rendering\<close>

lemma split_str_ne: "split_str sep s \<noteq> []"
  by (induction s) (auto split: list.splits)

lemma split_str_none: "sep \<notin> set s \<Longrightarrow> split_str sep s = [s]"
  by (induction s) auto

lemma split_str_first:
  "sep \<notin> set a \<Longrightarrow> split_str sep (a @ sep # b) = a # split_str sep b"
  by (induction a) auto

lemma utf8_ne: "utf8 c \<noteq> []"
  by (simp add: utf8_def Let_def)

lemma unat_byte: "n < 256 \<Longrightarrow> unat (of_nat n :: byte) = n"
  by (simp add: unat_of_nat)

lemma byte_of_nat_inj:
  assumes "a < 256" "b < 256" "(of_nat a :: byte) = of_nat b"
  shows "a = b"
  using assms by (metis unat_byte)

lemma utf8_ascii: "of_char c < (128::nat) \<Longrightarrow> utf8 c = [of_nat (of_char c)]"
  by (simp add: utf8_def Let_def)

lemma utf8_two:
  "\<not> of_char c < (128::nat) \<Longrightarrow>
     utf8 c = [of_nat (192 + of_char c div 64), of_nat (128 + of_char c mod 64)]"
  by (simp add: utf8_def Let_def)

lemma utf8_inj_app:
  assumes "utf8 c @ xs = utf8 d @ ys"
  shows "c = d \<and> xs = ys"
proof -
  define n where "n = (of_char c :: nat)"
  define m where "m = (of_char d :: nat)"
  have n: "n < 256" and m: "m < 256" by (simp_all add: n_def m_def)
  have ln: "192 + n div 64 < 256" and lm: "192 + m div 64 < 256" using n m by auto
  have cn: "128 + n mod 64 < 256" and cm: "128 + m mod 64 < 256" by auto
  consider (aa) "n < 128" "m < 128" | (am) "n < 128" "\<not> m < 128"
    | (ma) "\<not> n < 128" "m < 128" | (mm) "\<not> n < 128" "\<not> m < 128" by blast
  then have "n = m \<and> xs = ys"
  proof cases
    case aa
    with assms have e: "(of_nat n :: byte) = of_nat m" "xs = ys"
      unfolding n_def m_def
      by (simp_all only: utf8_ascii append_Cons append_Nil list.inject simp_thms)
    from byte_of_nat_inj [OF n m e(1)] e(2) show ?thesis by simp
  next
    case am
    with assms have e: "(of_nat n :: byte) = of_nat (192 + m div 64)"
      unfolding n_def m_def
      by (simp only: utf8_ascii utf8_two append_Cons append_Nil list.inject simp_thms)
    from byte_of_nat_inj [OF n lm e] am show ?thesis by simp
  next
    case ma
    with assms have e: "(of_nat (192 + n div 64) :: byte) = of_nat m"
      unfolding n_def m_def
      by (simp only: utf8_ascii utf8_two append_Cons append_Nil list.inject simp_thms)
    from byte_of_nat_inj [OF ln m e] ma show ?thesis by simp
  next
    case mm
    with assms have e: "(of_nat (192 + n div 64) :: byte) = of_nat (192 + m div 64)"
      "(of_nat (128 + n mod 64) :: byte) = of_nat (128 + m mod 64)" "xs = ys"
      unfolding n_def m_def
      by (simp_all only: utf8_two append_Cons append_Nil list.inject simp_thms)
    have "n div 64 = m div 64" using byte_of_nat_inj [OF ln lm e(1)] by simp
    moreover have "n mod 64 = m mod 64" using byte_of_nat_inj [OF cn cm e(2)] by simp
    ultimately have "n = m" by (metis div_mult_mod_eq)
    with e(3) show ?thesis by simp
  qed
  then show ?thesis by (simp add: n_def m_def)
qed

lemma Buffer_from_inj: "Buffer_from s = Buffer_from t \<Longrightarrow> s = t"
proof (induction s arbitrary: t)
  case Nil
  then show ?case by (cases t) (auto simp: Buffer_from_def utf8_ne)
next
  case (Cons c s)
  then show ?case
    by (cases t) (auto simp: Buffer_from_def utf8_ne dest: utf8_inj_app)
qed


lemma nibble_lt: "unat (b :: byte) div 16 < 16" "unat b mod 16 < 16"
proof -
  have "unat b < 2 ^ LENGTH(8)" by (rule unsigned_less)
  then show "unat b div 16 < 16" by simp
  show "unat b mod 16 < 16" by simp
qed

lemma hex_with_set:
  assumes "length digits = 16"
  shows "set (hex_with digits bs) \<subseteq> set digits"
  using assms nibble_lt by (induction bs) (auto simp: hex_with_def)

lemma hex_with_length: "length (hex_with digits bs) = 2 * length bs"
  by (induction bs) (auto simp: hex_with_def)

lemma hex_set: "set (hex bs) \<subseteq> set ''0123456789abcdef''"
  unfolding hex_def by (rule hex_with_set) simp

lemma HEX_set: "set (HEX bs) \<subseteq> set ''0123456789ABCDEF''"
  unfolding HEX_def by (rule hex_with_set) simp

lemma hex_no_sep: "CHR ''='' \<notin> set (hex bs)"
  using hex_set [of bs] by auto

lemma HEX_no_sep: "CHR ''='' \<notin> set (HEX bs)"
  using HEX_set [of bs] by auto

lemma validateSignature_iff:
  "validateSignature H payload signature appSecret =
     Inr (case signature of
            None \<Rightarrow> False
          | Some s \<Rightarrow> s \<noteq> [] \<and> length (split_str CHR ''='' s) = 2
              \<and> split_str CHR ''='' s ! 1 = hex (H (Buffer_from appSecret) (payload_bytes payload)))"
  by (auto simp: validateSignature_def Let_def timingSafeEqual_def split: option.splits
           dest: Buffer_from_inj)

lemma split_header:
  "CHR ''='' \<notin> set x \<Longrightarrow> CHR ''='' \<notin> set d \<Longrightarrow> split_str CHR ''='' (x @ CHR ''='' # d) = [x, d]"
  by (simp add: split_str_first split_str_none)

lemma nibble_cases:
  assumes "h < (16::nat)"
  shows "h \<in> {0, 1, 2, 3, 4, 5, 6, 7, 8, 9, 10, 11, 12, 13, 14, 15}"
  using assms by simp arith

lemma letter_case_differs:
  assumes "h < (16::nat)" "''0123456789abcdef'' ! h \<in> set ''abcdef''"
  shows "''0123456789ABCDEF'' ! h \<noteq> ''0123456789abcdef'' ! h"
  using nibble_cases [OF assms(1)] assms(2) by auto

lemma HEX_neq_hex:
  assumes "\<exists>c \<in> set (hex bs). c \<in> set ''abcdef''"
  shows "HEX bs \<noteq> hex bs"
  using assms
proof (induction bs)
  case Nil
  then show ?case by (simp add: hex_def hex_with_def)
next
  case (Cons b bs)
  have h: "unat b div 16 < 16" and l: "unat b mod 16 < 16" by (rule nibble_lt)+
  from Cons.prems consider
      "''0123456789abcdef'' ! (unat b div 16) \<in> set ''abcdef''"
    | "''0123456789abcdef'' ! (unat b mod 16) \<in> set ''abcdef''"
    | "\<exists>c \<in> set (hex bs). c \<in> set ''abcdef''"
    by (auto simp: hex_def hex_with_def)
  then show ?case
  proof cases
    case 1
    from letter_case_differs [OF h 1] show ?thesis by (simp add: hex_def HEX_def hex_with_def)
  next
    case 2
    from letter_case_differs [OF l 2] show ?thesis by (simp add: hex_def HEX_def hex_with_def)
  next
    case 3
    with Cons.IH show ?thesis by (simp add: hex_def HEX_def hex_with_def)
  qed
qed

text \<open>
  The test vector, evaluated.
\<close>

lemma rfc4231_bytes:
  "Buffer_from ''Jefe'' = [0x4a, 0x65, 0x66, 0x65]"
  "Buffer_from ''what do ya want for nothing?'' =
     [0x77, 0x68, 0x61, 0x74, 0x20, 0x64, 0x6f, 0x20, 0x79, 0x61, 0x20, 0x77, 0x61, 0x6e,
      0x74, 0x20, 0x66, 0x6f, 0x72, 0x20, 0x6e, 0x6f, 0x74, 0x68, 0x69, 0x6e, 0x67, 0x3f]"
  by (simp_all add: Buffer_from_def utf8_def)

lemma rfc4231_hex:
  "hex (rfc4231_hmac (Buffer_from ''Jefe'') (Buffer_from ''what do ya want for nothing?''))
     = ''5bdcc146bf60754e6a042426089575c75a003f089d2739839dec58b964ec3843''"
  unfolding rfc4231_bytes by (simp add: rfc4231_hmac_def hex_def hex_with_def)

lemma rfc4231_HEX:
  "HEX (rfc4231_hmac (Buffer_from ''Jefe'') (Buffer_from ''what do ya want for nothing?''))
     = ''5BDCC146BF60754E6A042426089575C75A003F089D2739839DEC58B964EC3843''"
  unfolding rfc4231_bytes by (simp add: rfc4231_hmac_def HEX_def hex_with_def)

subsection \<open>Accepted and rejected headers\<close>

lemma validateSignature_accepts:
  assumes "CHR ''='' \<notin> set x"
  shows "validateSignature H payload
           (Some (x @ CHR ''='' # hex (H (Buffer_from appSecret) (payload_bytes payload)))) appSecret
         = Inr True"
  using assms by (simp add: validateSignature_iff split_header hex_no_sep)

text \<open>
  C2. For every payload (string or buffer) and every secret, the header made of
  \<^verbatim>\<open>"sha256="\<close> and the lower-case hexadecimal HMAC-SHA256 digest of the payload
  under the secret is accepted: \<^verbatim>\<open>validateSignature\<close> returns \<^verbatim>\<open>true\<close>.
\<close>

theorem validateSignature_accepts_own_digest:
  "validateSignature H payload
     (Some (''sha256='' @ hex (H (Buffer_from appSecret) (payload_bytes payload)))) appSecret
   = Inr True"
  using validateSignature_accepts [of "''sha256''" H payload appSecret] by simp

theorem validateSignature_accepts_own_digest_witness:
  "validateSignature rfc4231_hmac (PString ''what do ya want for nothing?'')
     (Some ''sha256=5bdcc146bf60754e6a042426089575c75a003f089d2739839dec58b964ec3843'') ''Jefe''
   = Inr True"
  using validateSignature_accepts_own_digest
          [of rfc4231_hmac "PString ''what do ya want for nothing?''" "''Jefe''"]
  by (simp add: rfc4231_hex)

text \<open>
  C6. The algorithm name is never inspected: for every payload and secret, every header
  \<open>x\<close> \<^verbatim>\<open>=\<close> \<open>d\<close>, where \<open>x\<close> is any string without \<^verbatim>\<open>=\<close> (the empty
  string included) and \<open>d\<close> is the correct lower-case hexadecimal digest, is accepted.
\<close>

theorem validateSignature_ignores_algorithm:
  assumes "CHR ''='' \<notin> set x"
  shows "validateSignature H payload
           (Some (x @ ''='' @ hex (H (Buffer_from appSecret) (payload_bytes payload)))) appSecret
         = Inr True"
  using validateSignature_accepts [OF assms] by simp

text \<open>
  Headers with the prefix \<^verbatim>\<open>md5\<close> and with the empty prefix.
\<close>

theorem validateSignature_ignores_algorithm_witness:
  "CHR ''='' \<notin> set ''md5''
   \<and> validateSignature rfc4231_hmac (PString ''what do ya want for nothing?'')
        (Some ''md5=5bdcc146bf60754e6a042426089575c75a003f089d2739839dec58b964ec3843'') ''Jefe''
      = Inr True
   \<and> validateSignature rfc4231_hmac (PString ''what do ya want for nothing?'')
        (Some ''=5bdcc146bf60754e6a042426089575c75a003f089d2739839dec58b964ec3843'') ''Jefe''
      = Inr True"
  using validateSignature_ignores_algorithm
          [of "''md5''" rfc4231_hmac "PString ''what do ya want for nothing?''" "''Jefe''"]
        validateSignature_ignores_algorithm
          [of "''''" rfc4231_hmac "PString ''what do ya want for nothing?''" "''Jefe''"]
  by (simp add: rfc4231_hex)

text \<open>
  C5. For every payload and secret, \<^verbatim>\<open>validateSignature\<close> returns \<^verbatim>\<open>false\<close>,
  and raises nothing, when the header is absent or empty, when splitting it on
  \<^verbatim>\<open>=\<close> does not give exactly two parts, when the supplied digest differs in length
  from the computed one (as strings or as buffers), and when the supplied digest contains
  a character that is not a hexadecimal digit.
\<close>

theorem validateSignature_fails_closed:
  "validateSignature H payload None appSecret = Inr False
   \<and> validateSignature H payload (Some []) appSecret = Inr False
   \<and> (length (split_str CHR ''='' s) \<noteq> 2 \<longrightarrow>
        validateSignature H payload (Some s) appSecret = Inr False)
   \<and> (split_str CHR ''='' s = [alg, sigHash]
        \<and> (length sigHash \<noteq> length (hex (H (Buffer_from appSecret) (payload_bytes payload)))
           \<or> length (Buffer_from sigHash)
                \<noteq> length (Buffer_from (hex (H (Buffer_from appSecret) (payload_bytes payload)))))
        \<longrightarrow> validateSignature H payload (Some s) appSecret = Inr False)
   \<and> (split_str CHR ''='' s = [alg, sigHash]
        \<and> (\<exists>c \<in> set sigHash. c \<notin> set ''0123456789abcdefABCDEF'')
        \<longrightarrow> validateSignature H payload (Some s) appSecret = Inr False)"
proof -
  let ?d = "hex (H (Buffer_from appSecret) (payload_bytes payload))"
  have absent: "validateSignature H payload None appSecret = Inr False"
    by (simp add: validateSignature_iff)
  have empty: "validateSignature H payload (Some []) appSecret = Inr False"
    by (simp add: validateSignature_iff)
  have parts: "length (split_str CHR ''='' s) \<noteq> 2 \<longrightarrow>
      validateSignature H payload (Some s) appSecret = Inr False"
    by (simp add: validateSignature_iff)
  have len: "split_str CHR ''='' s = [alg, sigHash]
      \<and> (length sigHash \<noteq> length ?d \<or> length (Buffer_from sigHash) \<noteq> length (Buffer_from ?d))
      \<longrightarrow> validateSignature H payload (Some s) appSecret = Inr False"
  proof
    assume a: "split_str CHR ''='' s = [alg, sigHash]
      \<and> (length sigHash \<noteq> length ?d \<or> length (Buffer_from sigHash) \<noteq> length (Buffer_from ?d))"
    then have "sigHash \<noteq> ?d" by blast
    with a show "validateSignature H payload (Some s) appSecret = Inr False"
      by (simp add: validateSignature_iff)
  qed
  have nonhex: "split_str CHR ''='' s = [alg, sigHash]
      \<and> (\<exists>c \<in> set sigHash. c \<notin> set ''0123456789abcdefABCDEF'')
      \<longrightarrow> validateSignature H payload (Some s) appSecret = Inr False"
  proof
    assume a: "split_str CHR ''='' s = [alg, sigHash]
      \<and> (\<exists>c \<in> set sigHash. c \<notin> set ''0123456789abcdefABCDEF'')"
    then obtain c where c: "c \<in> set sigHash" "c \<notin> set ''0123456789abcdefABCDEF''" by blast
    from c(2) have "c \<notin> set ''0123456789abcdef''" by simp
    with hex_set have "c \<notin> set ?d" by blast
    with c(1) have "sigHash \<noteq> ?d" by blast
    with a show "validateSignature H payload (Some s) appSecret = Inr False"
      by (simp add: validateSignature_iff)
  qed
  from absent empty parts len nonhex show ?thesis by blast
qed

text \<open>
  No header, the empty header, a header without separator, one with two separators, a
  digest that is too short and a digest of the right length made of \<^verbatim>\<open>z\<close>.
\<close>

theorem validateSignature_fails_closed_witness:
  "validateSignature rfc4231_hmac (PString ''what do ya want for nothing?'') None ''Jefe'' = Inr False
   \<and> validateSignature rfc4231_hmac (PString ''what do ya want for nothing?'') (Some '''') ''Jefe''
       = Inr False
   \<and> validateSignature rfc4231_hmac (PString ''what do ya want for nothing?'')
        (Some ''sha256'') ''Jefe'' = Inr False
   \<and> validateSignature rfc4231_hmac (PString ''what do ya want for nothing?'')
        (Some ''sha256=5bdc=c146'') ''Jefe'' = Inr False
   \<and> validateSignature rfc4231_hmac (PString ''what do ya want for nothing?'')
        (Some ''sha256=5bdcc146'') ''Jefe'' = Inr False
   \<and> validateSignature rfc4231_hmac (PString ''what do ya want for nothing?'')
        (Some ''sha256=zzzzzzzzzzzzzzzzzzzzzzzzzzzzzzzzzzzzzzzzzzzzzzzzzzzzzzzzzzzzzzzz'') ''Jefe''
       = Inr False"
proof -
  let ?P = "PString ''what do ya want for nothing?''"
  let ?z = "''zzzzzzzzzzzzzzzzzzzzzzzzzzzzzzzzzzzzzzzzzzzzzzzzzzzzzzzzzzzzzzzz''"
  note inst = validateSignature_fails_closed [where H = rfc4231_hmac and payload = ?P and appSecret = "''Jefe''"]
  have absent: "validateSignature rfc4231_hmac ?P None ''Jefe'' = Inr False"
    and empty: "validateSignature rfc4231_hmac ?P (Some '''') ''Jefe'' = Inr False"
    using inst by blast+
  have nosep: "validateSignature rfc4231_hmac ?P (Some ''sha256'') ''Jefe'' = Inr False"
    using inst [where s = "''sha256''"] by simp
  have three: "validateSignature rfc4231_hmac ?P (Some ''sha256=5bdc=c146'') ''Jefe'' = Inr False"
    using inst [where s = "''sha256=5bdc=c146''"] by simp
  have short: "validateSignature rfc4231_hmac ?P (Some ''sha256=5bdcc146'') ''Jefe'' = Inr False"
    using inst [where s = "''sha256=5bdcc146''" and alg = "''sha256''" and sigHash = "''5bdcc146''"]
    by (simp add: rfc4231_hex)
  have nonhex: "validateSignature rfc4231_hmac ?P (Some (''sha256='' @ ?z)) ''Jefe'' = Inr False"
    using inst [where s = "''sha256='' @ ?z" and alg = "''sha256''" and sigHash = ?z]
    by simp
  from absent empty nosep three short nonhex show ?thesis by simp
qed

text \<open>
  C10. The comparison is case-sensitive over the hexadecimal text: for every payload and
  secret whose correct digest contains at least one letter, the header \<^verbatim>\<open>"sha256="\<close>
  followed by the upper-case rendering of the digest is rejected.
\<close>

theorem validateSignature_rejects_uppercase:
  assumes "\<exists>c \<in> set (hex (H (Buffer_from appSecret) (payload_bytes payload))). c \<in> set ''abcdef''"
  shows "validateSignature H payload
           (Some (''sha256='' @ HEX (H (Buffer_from appSecret) (payload_bytes payload)))) appSecret
         = Inr False"
proof -
  have "split_str CHR ''='' (''sha256'' @ CHR ''='' # HEX (H (Buffer_from appSecret) (payload_bytes payload)))
          = [''sha256'', HEX (H (Buffer_from appSecret) (payload_bytes payload))]"
    by (rule split_header) (simp_all add: HEX_no_sep)
  with HEX_neq_hex [OF assms] show ?thesis
    by (simp add: validateSignature_iff)
qed

theorem validateSignature_rejects_uppercase_witness:
  "(\<exists>c \<in> set ''5bdcc146bf60754e6a042426089575c75a003f089d2739839dec58b964ec3843''. c \<in> set ''abcdef'')
   \<and> validateSignature rfc4231_hmac (PString ''what do ya want for nothing?'')
        (Some ''sha256=5BDCC146BF60754E6A042426089575C75A003F089D2739839DEC58B964EC3843'') ''Jefe''
       = Inr False"
  using validateSignature_rejects_uppercase
          [of rfc4231_hmac "''Jefe''" "PString ''what do ya want for nothing?''"]
  by (simp add: rfc4231_hex rfc4231_HEX)

text \<open>
  A header computed over one payload and presented with another payload is accepted
  exactly when the keyed hash gives both payloads the same digest: what the code adds to
  the keyed hash is the comparison, and whether two payloads can collide is a property
  of the hash alone.
\<close>

lemma validateSignature_other_payload:
  "validateSignature H payload'
     (Some (''sha256='' @ hex (H (Buffer_from appSecret) (payload_bytes payload)))) appSecret
   = Inr (hex (H (Buffer_from appSecret) (payload_bytes payload'))
            = hex (H (Buffer_from appSecret) (payload_bytes payload)))"
proof -
  have "split_str CHR ''='' (''sha256'' @ CHR ''='' # hex (H (Buffer_from appSecret) (payload_bytes payload)))
          = [''sha256'', hex (H (Buffer_from appSecret) (payload_bytes payload))]"
    by (rule split_header) (simp_all add: hex_no_sep)
  then show ?thesis
    by (auto simp: validateSignature_iff)
qed

end
